theory Spec2Isabelle
  imports Complex_Main "HOL-Library.AList"
begin

section \<open>The frontend API client (\<open>apiFetch\<close>, \<open>safeJson\<close>)\<close>

text \<open>
  The client is the TypeScript module that ends \<^verbatim>\<open>src/frontend/app/walker/page.tsx\<close>
  (lines 371 to 579). It is asynchronous code over three browser services:
  \<^verbatim>\<open>fetch\<close>, \<^verbatim>\<open>localStorage\<close> and \<^verbatim>\<open>JSON.parse\<close>. None of them belongs to
  the repository, so each is a field of the record \<open>platform\<close> below, and the model
  is state passing: a \<open>world\<close> holds the storage, the state of the network and the
  list of requests sent so far. Each \<^verbatim>\<open>await\<close> is one sequential step that is
  taken to settle: the promise resolves or rejects. Every
  call of a browser service that can throw is a branch of the model: a rejected
  \<^verbatim>\<open>fetch\<close>, a body that cannot be read, a text that is not JSON, a value that has
  no string form, and a storage that refuses to be read or written.
\<close>

subsection \<open>JavaScript values\<close>

text \<open>
  What \<^verbatim>\<open>JSON.parse\<close> can return. A number is kept by its value; an object by its
  fields in order, each key once, \<open>map_of\<close> reading one. \<^verbatim>\<open>undefined\<close> is
  \<open>None\<close> of \<open>json option\<close>.
\<close>

datatype json =
    JNull
  | JBool bool
  | JNum real
  | JStr string
  | JArr "json list"
  | JObj "(string \<times> json) list"








subsection \<open>Requests, responses and the platform\<close>

datatype HttpMethod = GET | POST | PUT | PATCH | DELETE

text \<open>
  \<open>req_body\<close> is the value handed to \<^verbatim>\<open>JSON.stringify\<close>, \<open>None\<close> when the
  request has no body.
\<close>

record request =
  req_url :: string
  req_method :: HttpMethod
  req_headers :: "(string \<times> string) list"
  req_body :: "json option"

text \<open>
  A response that has arrived: its status and the text of its body, \<open>None\<close> where
  the body cannot be read (\<^verbatim>\<open>res.text()\<close> and \<^verbatim>\<open>r.json()\<close> then reject).
\<close>

record response =
  status :: nat
  body :: "string option"


text \<open>\<^verbatim>\<open>fetch\<close> resolves with a response or rejects (a network failure).\<close>

datatype fetch_result = Rejected | Resolved response

text \<open>
  \<open>env_api_base\<close> is \<^verbatim>\<open>process.env.NEXT_PUBLIC_API_BASE_URL\<close>;
  \<open>window_hostname\<close> is \<^verbatim>\<open>window.location.hostname\<close>, \<open>None\<close> where
  \<^verbatim>\<open>typeof window === 'undefined'\<close>; \<open>json_parse\<close> is \<^verbatim>\<open>JSON.parse\<close>, \<open>None\<close>
  where it throws; \<open>fetch\<close> answers a request in a state of the network and gives the
  next state. \<open>storage_denied\<close> holds where the browser refuses access to
  \<^verbatim>\<open>localStorage\<close> (reading the property throws), and \<open>storage_full\<close> says of a
  storage, a key and a text that \<^verbatim>\<open>setItem\<close> would throw for lack of room.
\<close>

record 'n platform =
  env_api_base :: "string option"
  window_hostname :: "string option"
  json_parse :: "string \<Rightarrow> json option"
  num_text :: "real \<Rightarrow> string"
  fetch :: "'n \<Rightarrow> request \<Rightarrow> fetch_result \<times> 'n"
  storage_denied :: bool
  storage_full :: "(string \<rightharpoonup> string) \<Rightarrow> string \<Rightarrow> string \<Rightarrow> bool"

record 'n world =
  storage :: "string \<rightharpoonup> string"
  net :: 'n
  sent :: "request list"

text \<open>
  How a call of \<open>apiFetch\<close> ends: it returns a value, or it throws. The exceptions
  are told apart by where they come from: \<open>Error\<close> is the \<^verbatim>\<open>new Error(message)\<close> of
  line 447; \<open>FetchFailed\<close> is a rejected \<^verbatim>\<open>fetch\<close>; \<open>BodyFailed\<close> is a body that
  cannot be read; \<open>SyntaxError\<close> is what \<^verbatim>\<open>r.json()\<close> throws on a body that is not
  JSON; \<open>TypeError\<close> is what the string conversion throws on a value that has no
  string form; \<open>StorageFailed\<close> is what \<^verbatim>\<open>localStorage\<close> throws when it is denied
  or full.
\<close>

datatype exn = Error string | FetchFailed | BodyFailed | SyntaxError | TypeError | StorageFailed



subsection \<open>The functions of the client\<close>


definition has_window :: "'n platform \<Rightarrow> bool" where
  "has_window P = (window_hostname P \<noteq> None)"


text \<open>
  \<open>getTokens\<close> (lines 391 to 397): the pair (access, refresh), both null without a
  window; it throws where the storage is denied.
\<close>

definition getTokens ::
  "'n platform \<Rightarrow> 'n world \<Rightarrow> exn + (string option \<times> string option)" where
  "getTokens P w =
     (if \<not> has_window P then Inr (None, None)
      else if storage_denied P then Inl StorageFailed
      else Inr (storage w ''access_token'', storage w ''refresh_token''))"



















subsection \<open>Notions used to state the properties of the client\<close>



















section \<open>The status of an order\<close>

subsection \<open>The database enum\<close>

text \<open>
  The schema document \<^verbatim>\<open>src/unnamed/part_011\<close> records the tables of the running
  database. The table \<^verbatim>\<open>public.orders\<close> (line 194) has a column \<^verbatim>\<open>status (enum)\<close>,
  and line 377 lists the enum type: \<^verbatim>\<open>orderstatus: PENDING, CONFIRMED, IN_PROGRESS,
  COMPLETED, CANCELLED, NO_WALKER\<close>. Line 378 lists \<^verbatim>\<open>ordertype\<close>.
\<close>

datatype orderstatus = PENDING | CONFIRMED | IN_PROGRESS | COMPLETED | CANCELLED | NO_WALKER

datatype ordertype = SINGLE_WALK | REGULAR_WALK | PET_SITTING | PET_BOARDING

text \<open>The values of the enum in the order of the declaration, and their labels.\<close>

definition orderstatus_values :: "orderstatus list" where
  "orderstatus_values = [PENDING, CONFIRMED, IN_PROGRESS, COMPLETED, CANCELLED, NO_WALKER]"

fun orderstatus_label :: "orderstatus \<Rightarrow> string" where
  "orderstatus_label PENDING = ''PENDING''"
| "orderstatus_label CONFIRMED = ''CONFIRMED''"
| "orderstatus_label IN_PROGRESS = ''IN_PROGRESS''"
| "orderstatus_label COMPLETED = ''COMPLETED''"
| "orderstatus_label CANCELLED = ''CANCELLED''"
| "orderstatus_label NO_WALKER = ''NO_WALKER''"

text \<open>
  A row of \<^verbatim>\<open>public.orders\<close>, with the key and the two columns of an enum type (the
  document abridges the list of columns and gives no type for the others).
\<close>

record orders_row =
  row_id :: string
  row_order_type :: ordertype
  row_status :: orderstatus

text \<open>
  For comparison, the list of the specification (section 3, Status): \<^verbatim>\<open>PENDING,
  OFFERED, CONFIRMED, IN_PROGRESS, COMPLETED, CANCELLED, NO_WALKER\<close>.
\<close>

definition spec_status_names :: "string list" where
  "spec_status_names =
     [''PENDING'', ''OFFERED'', ''CONFIRMED'', ''IN_PROGRESS'', ''COMPLETED'', ''CANCELLED'',
      ''NO_WALKER'']"

subsection \<open>The walker's page\<close>

text \<open>
  The type \<^verbatim>\<open>Order\<close> of the client (\<^verbatim>\<open>src/frontend/app/walker/page.tsx\<close>, line 480):
  the status arrives as a string; an optional field is an \<open>option\<close>.
\<close>

record Order =
  o_id :: string
  o_status :: string
  o_walker_id :: "string option"
  o_address :: "string option"
  o_scheduled_at :: "string option"
  o_total_price :: "real option"

text \<open>
  The component \<^verbatim>\<open>ActiveOrders\<close> (lines 53 to 96 of the same file; the page
  \<^verbatim>\<open>WalkerOrdersPage\<close> in \<^verbatim>\<open>src/unnamed/part_006\<close>, lines 109 and 160 to 163, has
  the same filter and the same buttons). Line 64 keeps the orders whose status is in
  the first list; lines 87 to 90 give such an order the button that calls
  \<^verbatim>\<open>OrdersAPI.startWalk\<close> when its status is \<^verbatim>\<open>'confirmed'\<close> and the button that
  calls \<^verbatim>\<open>OrdersAPI.completeWalk\<close> when its status is in the second list.
\<close>

definition active_statuses :: "string list" where
  "active_statuses = [''confirmed'', ''in_progress'', ''walking'', ''started'', ''active'']"

definition walking_statuses :: "string list" where
  "walking_statuses = [''in_progress'', ''walking'', ''started'', ''active'']"

datatype walker_call = startWalk | completeWalk

definition buttons :: "Order \<Rightarrow> walker_call list" where
  "buttons ord =
     (if o_status ord = ''confirmed'' then [startWalk] else []) @
     (if o_status ord \<in> set walking_statuses then [completeWalk] else [])"

definition ActiveOrders :: "Order list \<Rightarrow> (string \<times> walker_call list) list" where
  "ActiveOrders orders =
     map (\<lambda>ord. (o_id ord, buttons ord))
       (filter (\<lambda>ord. o_status ord \<in> set active_statuses) orders)"

subsection \<open>The lifecycle of the specification\<close>

text \<open>
  The Lifecycle Controller of the order service (\<^verbatim>\<open>services/order-service\<close>, module
  \<^verbatim>\<open>order_service\<close>) is not among the sources; only its README is. What follows is
  taken from the specification, and each definition says from where.
\<close>

text \<open>
  Modelled from the spec: the statuses of the absent controller, as section 3 lists
  them (\<^verbatim>\<open>PENDING, OFFERED, CONFIRMED, IN_PROGRESS, COMPLETED, CANCELLED, NO_WALKER\<close>).
  The suffix keeps them apart from the values of the database enum.
\<close>

datatype lifecycle_status =
    PENDING_st
  | OFFERED_st
  | CONFIRMED_st
  | IN_PROGRESS_st
  | COMPLETED_st
  | CANCELLED_st
  | NO_WALKER_st

text \<open>
  Modelled from the spec: the events of the absent controller, one for each row of the
  table of section 4.4 (column Event): a matching round produces at least one candidate;
  a matching round produces none after the last retry; the walker accepts; the offer
  expires; the walker starts; the walker completes; the client or the walker cancels.
\<close>

datatype event =
    candidates_found
  | retries_exhausted
  | walker_accepts
  | offer_expires
  | walker_starts
  | walker_completes
  | party_cancels

text \<open>
  Modelled from the spec: the table of section 4.4 of the absent controller, row by
  row: the status an event leads to, \<open>None\<close> where the table has no row for the
  status and the event. The guards of the table (price computed, walker still
  available, grace window) can only refuse a transition that the table allows, so they
  are left out: what holds for every sequence of the unguarded table holds for every
  guarded one.
\<close>

fun transition :: "lifecycle_status \<Rightarrow> event \<Rightarrow> lifecycle_status option" where
  "transition PENDING_st candidates_found = Some OFFERED_st"
| "transition PENDING_st retries_exhausted = Some NO_WALKER_st"
| "transition OFFERED_st retries_exhausted = Some NO_WALKER_st"
| "transition OFFERED_st walker_accepts = Some CONFIRMED_st"
| "transition OFFERED_st offer_expires = Some PENDING_st"
| "transition CONFIRMED_st walker_starts = Some IN_PROGRESS_st"
| "transition IN_PROGRESS_st walker_completes = Some COMPLETED_st"
| "transition PENDING_st party_cancels = Some CANCELLED_st"
| "transition OFFERED_st party_cancels = Some CANCELLED_st"
| "transition CONFIRMED_st party_cancels = Some CANCELLED_st"
| "transition s e = None"

text \<open>
  Modelled from the spec: the terminal statuses of the absent controller (section 4.4
  and the glossary: \<^verbatim>\<open>COMPLETED, CANCELLED, or NO_WALKER\<close>).
\<close>

definition terminal :: "lifecycle_status \<Rightarrow> bool" where
  "terminal s = (s = COMPLETED_st \<or> s = CANCELLED_st \<or> s = NO_WALKER_st)"

text \<open>
  Modelled from the spec: the absent controller applying a sequence of events to an
  order (section 4.4: every transition is applied through the compare-and-swap of the
  Order Store, and nothing but a row of the table is applied). An event the table has a
  row for moves the order; any other event is refused and leaves the status as it is.
  \<open>status_log\<close> is the sequence of statuses the order goes through, its first status
  included.
\<close>

fun status_log :: "lifecycle_status \<Rightarrow> event list \<Rightarrow> lifecycle_status list" where
  "status_log s [] = [s]"
| "status_log s (e # es) =
     (case transition s e of
        None \<Rightarrow> status_log s es
      | Some t \<Rightarrow> s # status_log t es)"

text \<open>The moves of a log: each status with the one that follows it.\<close>

definition moves :: "lifecycle_status list \<Rightarrow> (lifecycle_status \<times> lifecycle_status) list" where
  "moves ss = zip ss (tl ss)"

text \<open>An order as the page receives it, and a sequence of events, for the examples.\<close>

definition demo_order :: "string \<Rightarrow> string \<Rightarrow> Order" where
  "demo_order i st =
     \<lparr> o_id = i, o_status = st, o_walker_id = None, o_address = None,
       o_scheduled_at = None, o_total_price = None \<rparr>"

definition demo_events :: "event list" where
  "demo_events =
     [candidates_found, walker_accepts, walker_completes, walker_starts, walker_completes,
      party_cancels]"

section \<open>Properties of the frontend API client\<close>




lemma getTokens_storage: "storage w' = storage w \<Longrightarrow> getTokens P w' = getTokens P w"
  by (simp add: getTokens_def)































section \<open>Properties of the status of an order\<close>

lemma orderstatus_all: "s \<in> set orderstatus_values"
  by (cases s) (simp_all add: orderstatus_values_def)

text \<open>
  \<^bold>\<open>Claim C2\<close>, as the sources have it. The status of every row of \<^verbatim>\<open>public.orders\<close>
  is one of the six values the enum \<^verbatim>\<open>orderstatus\<close> declares. Their labels are
  distinct, each is one of the seven names of the specification, and together they are
  those seven without \<^verbatim>\<open>OFFERED\<close>: no order ever has the status \<^verbatim>\<open>OFFERED\<close>.
  The statuses the walker's pages test for do not hold it either.
\<close>

theorem orderstatus_six_values_without_offered:
  "row_status r \<in> set orderstatus_values
   \<and> orderstatus_label (row_status r) \<in> set spec_status_names
   \<and> orderstatus_label (row_status r) \<noteq> ''OFFERED''
   \<and> length orderstatus_values = 6
   \<and> distinct (map orderstatus_label orderstatus_values)
   \<and> set (map orderstatus_label orderstatus_values) = set spec_status_names - {''OFFERED''}
   \<and> ''offered'' \<notin> set active_statuses \<and> ''OFFERED'' \<notin> set active_statuses"
proof -
  have "orderstatus_label s \<in> set spec_status_names \<and> orderstatus_label s \<noteq> ''OFFERED''" for s
    by (cases s) (simp_all add: spec_status_names_def)
  moreover have "set (map orderstatus_label orderstatus_values) = set spec_status_names - {''OFFERED''}"
    by (auto simp: orderstatus_values_def spec_status_names_def)
  moreover have "''offered'' \<notin> set active_statuses \<and> ''OFFERED'' \<notin> set active_statuses"
    by (simp add: active_statuses_def)
  ultimately show ?thesis
    by (simp add: orderstatus_all) (simp add: orderstatus_values_def)
qed

text \<open>
  Claim C2 as it is worded fails: it counts seven declared values and calls
  \<^verbatim>\<open>OFFERED\<close> reachable, but the declaration has six, and \<^verbatim>\<open>OFFERED\<close> is not one of
  them.
\<close>

theorem offered_not_declared_counterexample:
  "''OFFERED'' \<in> set spec_status_names
   \<and> ''OFFERED'' \<notin> set (map orderstatus_label orderstatus_values)
   \<and> length spec_status_names = 7
   \<and> length (map orderstatus_label orderstatus_values) = 6"
  by (simp add: spec_status_names_def orderstatus_values_def)

section \<open>Properties of the lifecycle\<close>

lemma transition_terminal: "terminal s \<Longrightarrow> transition s e = None"
  by (cases s; cases e) (simp_all add: terminal_def)

lemma transition_completed: "transition s e = Some COMPLETED_st \<Longrightarrow> s = IN_PROGRESS_st"
  by (cases s; cases e) simp_all

lemma status_log_nonempty: "status_log s es \<noteq> []"
  by (induction es arbitrary: s) (auto split: option.splits)

lemma status_log_hd: "hd (status_log s es) = s"
  by (induction es arbitrary: s) (auto split: option.splits)

lemma status_log_terminal: "terminal s \<Longrightarrow> status_log s es = [s]"
  by (induction es) (simp_all add: transition_terminal)

lemma moves_Cons: "ys \<noteq> [] \<Longrightarrow> moves (x # ys) = (x, hd ys) # moves ys"
  by (cases ys) (simp_all add: moves_def)

lemma moves_status_log:
  "(a, b) \<in> set (moves (status_log s es)) \<Longrightarrow> \<exists>e. transition a e = Some b"
proof (induction es arbitrary: s)
  case Nil
  then show ?case by (simp add: moves_def)
next
  case (Cons e es)
  show ?case
  proof (cases "transition s e")
    case None
    with Cons show ?thesis by simp
  next
    case (Some t)
    with Cons.prems have "(a, b) = (s, t) \<or> (a, b) \<in> set (moves (status_log t es))"
      by (simp add: moves_Cons status_log_nonempty status_log_hd)
    with Some Cons.IH show ?thesis by auto
  qed
qed


lemma buttons_complete:
  "completeWalk \<in> set (buttons ord) \<Longrightarrow> o_status ord \<in> set walking_statuses \<and> o_status ord \<noteq> ''confirmed''"
  by (auto simp: buttons_def walking_statuses_def split: if_splits)

lemma buttons_confirmed: "o_status ord = ''confirmed'' \<Longrightarrow> buttons ord = [startWalk]"
  by (simp add: buttons_def walking_statuses_def)

lemma ActiveOrders_unlisted:
  "o_status ord \<notin> set active_statuses \<Longrightarrow> ActiveOrders (xs @ [ord] @ ys) = ActiveOrders (xs @ ys)"
  by (simp add: ActiveOrders_def)

text \<open>
  \<^bold>\<open>Claim C6\<close>. For every status \<open>s\<close> an order starts from and every sequence
  \<open>es\<close> of events applied to it by the table of section 4.4:
  \<^item> the order never moves from \<^verbatim>\<open>CONFIRMED\<close> directly to \<^verbatim>\<open>COMPLETED\<close>; every move
    into \<^verbatim>\<open>COMPLETED\<close> comes from \<^verbatim>\<open>IN_PROGRESS\<close>;
  \<^item> no move leaves a terminal status, and an order that starts in a terminal status
    stays there whatever the events: no further transition is applied to it.

  The walker's page agrees with it: the button that completes a walk is shown only for
  an order whose status is one of the walking statuses, never for a \<^verbatim>\<open>confirmed\<close> one,
  which gets the start button alone; and an order whose status is not an active one
  (a terminal status, for one) is not shown and has no button.
\<close>

theorem lifecycle_never_skips_in_progress:
  "(CONFIRMED_st, COMPLETED_st) \<notin> set (moves (status_log s es))
   \<and> (\<forall>a. (a, COMPLETED_st) \<in> set (moves (status_log s es)) \<longrightarrow> a = IN_PROGRESS_st)
   \<and> (\<forall>a b. (a, b) \<in> set (moves (status_log s es)) \<longrightarrow> \<not> terminal a)
   \<and> (terminal s \<longrightarrow> status_log s es = [s])
   \<and> (\<forall>ord. completeWalk \<in> set (buttons ord) \<longrightarrow>
         o_status ord \<in> set walking_statuses \<and> o_status ord \<noteq> ''confirmed'')
   \<and> (\<forall>ord. o_status ord = ''confirmed'' \<longrightarrow> buttons ord = [startWalk])
   \<and> (\<forall>ord xs ys. o_status ord \<notin> set active_statuses \<longrightarrow>
         ActiveOrders (xs @ [ord] @ ys) = ActiveOrders (xs @ ys))"
proof -
  have c1: "(CONFIRMED_st, COMPLETED_st) \<notin> set (moves (status_log s es))"
    using moves_status_log transition_completed by blast
  have c2: "\<forall>a. (a, COMPLETED_st) \<in> set (moves (status_log s es)) \<longrightarrow> a = IN_PROGRESS_st"
    using moves_status_log transition_completed by blast
  have c3: "\<forall>a b. (a, b) \<in> set (moves (status_log s es)) \<longrightarrow> \<not> terminal a"
  proof (intro allI impI)
    fix a b assume "(a, b) \<in> set (moves (status_log s es))"
    then obtain e where "transition a e = Some b"
      using moves_status_log by blast
    then show "\<not> terminal a"
      using transition_terminal by fastforce
  qed
  have c4: "terminal s \<longrightarrow> status_log s es = [s]"
    by (simp add: status_log_terminal)
  have c5: "\<forall>ord. completeWalk \<in> set (buttons ord) \<longrightarrow>
         o_status ord \<in> set walking_statuses \<and> o_status ord \<noteq> ''confirmed''"
    using buttons_complete by blast
  have c6: "\<forall>ord. o_status ord = ''confirmed'' \<longrightarrow> buttons ord = [startWalk]"
    using buttons_confirmed by blast
  have c7: "\<forall>ord xs ys. o_status ord \<notin> set active_statuses \<longrightarrow>
         ActiveOrders (xs @ [ord] @ ys) = ActiveOrders (xs @ ys)"
    using ActiveOrders_unlisted by blast
  show ?thesis
    by (intro conjI, fact c1, fact c2, fact c3, fact c4, fact c5, fact c6, fact c7)
qed

text \<open>
  The theorem at a run through the whole lifecycle, with an early attempt to complete
  (refused) and a late attempt to cancel (refused), and at three orders of the page.
\<close>

theorem lifecycle_never_skips_in_progress_witness:
  "status_log PENDING_st demo_events
     = [PENDING_st, OFFERED_st, CONFIRMED_st, IN_PROGRESS_st, COMPLETED_st]
   \<and> (IN_PROGRESS_st, COMPLETED_st) \<in> set (moves (status_log PENDING_st demo_events))
   \<and> (CONFIRMED_st, COMPLETED_st) \<notin> set (moves (status_log PENDING_st demo_events))
   \<and> terminal COMPLETED_st
   \<and> status_log COMPLETED_st [party_cancels, walker_starts] = [COMPLETED_st]
   \<and> buttons (demo_order ''o1'' ''confirmed'') = [startWalk]
   \<and> completeWalk \<in> set (buttons (demo_order ''o2'' ''in_progress''))
   \<and> ''completed'' \<notin> set active_statuses
   \<and> ActiveOrders ([demo_order ''o1'' ''confirmed''] @ [demo_order ''o3'' ''completed''] @ [])
       = [(''o1'', [startWalk])]"
proof -
  note t1 = lifecycle_never_skips_in_progress [of PENDING_st demo_events]
  note t2 = lifecycle_never_skips_in_progress [of COMPLETED_st "[party_cancels, walker_starts]"]
  have lg: "status_log PENDING_st demo_events
     = [PENDING_st, OFFERED_st, CONFIRMED_st, IN_PROGRESS_st, COMPLETED_st]"
    by (simp add: demo_events_def)
  have mv: "(IN_PROGRESS_st, COMPLETED_st) \<in> set (moves (status_log PENDING_st demo_events))"
    by (simp add: lg moves_def)
  have ns: "(CONFIRMED_st, COMPLETED_st) \<notin> set (moves (status_log PENDING_st demo_events))"
    using t1 by (rule conjunct1)
  have tm: "terminal COMPLETED_st" by (simp add: terminal_def)
  have fin: "status_log COMPLETED_st [party_cancels, walker_starts] = [COMPLETED_st]"
    using t2 tm by blast
  have st: "o_status (demo_order ''o1'' ''confirmed'') = ''confirmed''"
    by (simp add: demo_order_def)
  have b1: "buttons (demo_order ''o1'' ''confirmed'') = [startWalk]"
    using t1 st by blast
  have b2: "completeWalk \<in> set (buttons (demo_order ''o2'' ''in_progress''))"
    by (simp add: buttons_def demo_order_def walking_statuses_def)
  have nl: "''completed'' \<notin> set active_statuses"
    by (simp add: active_statuses_def)
  have "o_status (demo_order ''o3'' ''completed'') \<notin> set active_statuses"
    using nl by (simp add: demo_order_def)
  with t1 have "ActiveOrders ([demo_order ''o1'' ''confirmed''] @ [demo_order ''o3'' ''completed''] @ [])
       = ActiveOrders ([demo_order ''o1'' ''confirmed''] @ [])"
    by blast
  also have "\<dots> = [(''o1'', [startWalk])]"
    using b1 by (simp add: ActiveOrders_def active_statuses_def demo_order_def)
  finally have ao: "ActiveOrders ([demo_order ''o1'' ''confirmed''] @ [demo_order ''o3'' ''completed''] @ [])
       = [(''o1'', [startWalk])]" .
  show ?thesis
    by (intro conjI, fact lg, fact mv, fact ns, fact tm, fact fin, fact b1, fact b2, fact nl, fact ao)
qed

end
